theory Spec2Isabelle
  imports Complex_Main
begin

section \<open>JavaScript values\<close>

text \<open>
  The wrapper of \<^verbatim>\<open>src/idb.js\<close> receives plain JavaScript objects and tests their fields
  with \<^verbatim>\<open>!x\<close>, \<^verbatim>\<open>typeof\<close>, \<^verbatim>\<open><=\<close>, \<^verbatim>\<open>===\<close> and \<^verbatim>\<open>+=\<close>, so the values are modelled with
  their dynamic type. A number is NaN or an exact rational: rounding and the two
  infinities of IEEE doubles are outside the model. A Date object is given by the calendar
  fields the host reports for it in local time (year, zero-based month index, day of the
  month, milliseconds since local midnight), or is the invalid date. Nested objects,
  arrays, symbols and big integers are outside the model.
\<close>

datatype jsnum = NaN | Finite rat

datatype jsdate = InvalidDate | ValidDate int nat nat nat

datatype jsval =
    JUndefined
  | JNull
  | JBool bool
  | JNumber jsnum
  | JString string
  | JDate jsdate

text \<open>A plain object: its own properties. \<^verbatim>\<open>Object.prototype\<close> has no property named
  date, sum, category or id, so reading one of these from a plain object is reading an
  own property or \<^verbatim>\<open>undefined\<close>.\<close>

type_synonym jsobj = "string \<rightharpoonup> jsval"

definition js_get :: "jsobj \<Rightarrow> string \<Rightarrow> jsval" where
  "js_get obj k = (case obj k of None \<Rightarrow> JUndefined | Some v \<Rightarrow> v)"

fun js_truthy :: "jsval \<Rightarrow> bool" where
  "js_truthy JUndefined = False"
| "js_truthy JNull = False"
| "js_truthy (JBool b) = b"
| "js_truthy (JNumber NaN) = False"
| "js_truthy (JNumber (Finite r)) = (r \<noteq> 0)"
| "js_truthy (JString s) = (s \<noteq> [])"
| "js_truthy (JDate d) = True"

fun js_typeof :: "jsval \<Rightarrow> string" where
  "js_typeof JUndefined = ''undefined''"
| "js_typeof JNull = ''object''"
| "js_typeof (JBool b) = ''boolean''"
| "js_typeof (JNumber n) = ''number''"
| "js_typeof (JString s) = ''string''"
| "js_typeof (JDate d) = ''object''"

fun num_le :: "jsnum \<Rightarrow> jsnum \<Rightarrow> bool" where
  "num_le (Finite a) (Finite b) = (a \<le> b)"
| "num_le _ _ = False"

fun num_less :: "jsnum \<Rightarrow> jsnum \<Rightarrow> bool" where
  "num_less (Finite a) (Finite b) = (a < b)"
| "num_less _ _ = False"

text \<open>Addition is exact here, where the source adds doubles: a sum that a double rounds
  (0.1 + 0.2) or cannot hold (2 to the power 53, plus 1) comes out differently, and no sum
  is infinite. The sums evaluated below, 0 + 10 + 20 and 0 + 10, are exact in doubles.\<close>

fun num_add :: "jsnum \<Rightarrow> jsnum \<Rightarrow> jsnum" where
  "num_add (Finite a) (Finite b) = Finite (a + b)"
| "num_add _ _ = NaN"

text \<open>\<^verbatim>\<open>a === v\<close> where the left operand is a number: NaN equals nothing.\<close>

definition num_strict_eq :: "jsnum \<Rightarrow> jsval \<Rightarrow> bool" where
  "num_strict_eq a v = (case v of JNumber b \<Rightarrow> a \<noteq> NaN \<and> a = b | _ \<Rightarrow> False)"

subsection \<open>What depends on the host\<close>

text \<open>
  Parsing a date string, the local calendar fields of a time value and the printed form
  of a number or of a date depend on the engine, its locale and its time zone. They are
  parameters of the model; every theorem below holds for every host.
\<close>

record host =
  parse_date :: "string \<Rightarrow> jsdate"
  time_to_date :: "rat \<Rightarrow> jsdate"
  number_to_string :: "jsnum \<Rightarrow> string"
  date_to_string :: "jsdate \<Rightarrow> string"

text \<open>\<^verbatim>\<open>new Date(v)\<close>: a Date is copied, a string is parsed, any other primitive is turned
  into a number and read as a time value.\<close>

fun new_Date :: "host \<Rightarrow> jsval \<Rightarrow> jsdate" where
  "new_Date h (JDate d) = d"
| "new_Date h (JString s) = parse_date h s"
| "new_Date h (JNumber NaN) = InvalidDate"
| "new_Date h (JNumber (Finite r)) = time_to_date h r"
| "new_Date h JUndefined = InvalidDate"
| "new_Date h JNull = time_to_date h 0"
| "new_Date h (JBool b) = time_to_date h (if b then 1 else 0)"

fun getFullYear :: "jsdate \<Rightarrow> jsnum" where
  "getFullYear InvalidDate = NaN"
| "getFullYear (ValidDate y m d t) = Finite (of_int y)"

fun getMonth :: "jsdate \<Rightarrow> jsnum" where
  "getMonth InvalidDate = NaN"
| "getMonth (ValidDate y m d t) = Finite (of_nat m)"

fun to_string :: "host \<Rightarrow> jsval \<Rightarrow> string" where
  "to_string h JUndefined = ''undefined''"
| "to_string h JNull = ''null''"
| "to_string h (JBool b) = (if b then ''true'' else ''false'')"
| "to_string h (JNumber n) = number_to_string h n"
| "to_string h (JString s) = s"
| "to_string h (JDate d) = date_to_string h d"

text \<open>The operator \<^verbatim>\<open>+\<close>: when an operand is a string, or a Date (whose primitive value
  is its string), the operands are concatenated as strings; otherwise they are added as
  numbers. \<open>to_number\<close> is the conversion of the values that are neither: it is never
  applied to a string or a Date, and its value there stands for nothing.\<close>

fun string_like :: "jsval \<Rightarrow> bool" where
  "string_like (JString s) = True"
| "string_like (JDate d) = True"
| "string_like _ = False"

fun to_number :: "jsval \<Rightarrow> jsnum" where
  "to_number (JNumber n) = n"
| "to_number JNull = Finite 0"
| "to_number (JBool b) = Finite (if b then 1 else 0)"
| "to_number _ = NaN"

definition js_plus :: "host \<Rightarrow> jsval \<Rightarrow> jsval \<Rightarrow> jsval" where
  "js_plus h a b =
     (if string_like a \<or> string_like b then JString (to_string h a @ to_string h b)
      else JNumber (num_add (to_number a) (to_number b)))"

section \<open>The host object store\<close>

text \<open>
  The object store belongs to the browser; the wrapper only calls it. What is modelled
  here is what the calls of the wrapper meet: keys and their order, \<^verbatim>\<open>put\<close>, \<^verbatim>\<open>delete\<close>
  and \<^verbatim>\<open>getAll\<close> on one store. The store keeps its records in ascending key order
  (numbers before dates before strings). A request that the host fails (quota, input or
  output error, exhausted key generator) is not computed by the model: it is the
  \<open>fault\<close> of the database below.
\<close>

fun valid_key :: "jsval \<Rightarrow> bool" where
  "valid_key (JNumber NaN) = False"
| "valid_key (JNumber (Finite r)) = True"
| "valid_key (JString s) = True"
| "valid_key (JDate InvalidDate) = False"
| "valid_key (JDate (ValidDate y m d t)) = True"
| "valid_key _ = False"

fun date_less :: "jsdate \<Rightarrow> jsdate \<Rightarrow> bool" where
  "date_less (ValidDate y m d t) (ValidDate y' m' d' t') =
     (y < y' \<or> (y = y' \<and> (m < m' \<or> (m = m' \<and> (d < d' \<or> (d = d' \<and> t < t'))))))"
| "date_less _ _ = False"

fun string_less :: "string \<Rightarrow> string \<Rightarrow> bool" where
  "string_less [] [] = False"
| "string_less [] (y # ys) = True"
| "string_less (x # xs) [] = False"
| "string_less (x # xs) (y # ys) =
     ((of_char x :: nat) < of_char y \<or> (x = y \<and> string_less xs ys))"

fun key_less :: "jsval \<Rightarrow> jsval \<Rightarrow> bool" where
  "key_less (JNumber a) (JNumber b) = num_less a b"
| "key_less (JNumber a) (JDate b) = True"
| "key_less (JNumber a) (JString b) = True"
| "key_less (JDate a) (JDate b) = date_less a b"
| "key_less (JDate a) (JString b) = True"
| "key_less (JString a) (JString b) = string_less a b"
| "key_less _ _ = False"

record object_store =
  entries :: "(jsval \<times> jsobj) list"
  keygen :: nat

definition empty_store :: object_store where
  "empty_store = \<lparr>entries = [], keygen = 1\<rparr>"

text \<open>Evaluating the key path \<^verbatim>\<open>id\<close> on a value fails when the value has no own
  property \<^verbatim>\<open>id\<close> or the property is \<^verbatim>\<open>undefined\<close>.\<close>

definition extract_key :: "jsobj \<Rightarrow> jsval option" where
  "extract_key v = (case v ''id'' of None \<Rightarrow> None | Some JUndefined \<Rightarrow> None | Some k \<Rightarrow> Some k)"

fun insert_entry :: "jsval \<Rightarrow> jsobj \<Rightarrow> (jsval \<times> jsobj) list \<Rightarrow> (jsval \<times> jsobj) list" where
  "insert_entry k v [] = [(k, v)]"
| "insert_entry k v ((k', v') # es) =
     (if key_less k k' then (k, v) # (k', v') # es
      else if k = k' then (k, v) # es
      else (k', v') # insert_entry k v es)"

text \<open>An explicit numeric key at or above the generator's current number moves the
  generator past it.\<close>

fun bump_keygen :: "jsval \<Rightarrow> nat \<Rightarrow> nat" where
  "bump_keygen (JNumber (Finite r)) g = (if of_nat g \<le> r then nat \<lfloor>r\<rfloor> + 1 else g)"
| "bump_keygen _ g = g"

datatype js_exception = TypeError | NotFoundError | DataError

text \<open>Modelled from the spec: the schema of the object store, which the caller's
  upgrade callback creates and the repository does not contain. The spec's data model
  gives every record an ``auto-assigned positive integer'' \<^verbatim>\<open>id\<close>, ``assigned by the
  store'', and the source comment reads ``Omit id to allow auto-increment'': the store has
  the in-line key path \<^verbatim>\<open>id\<close> and a key generator, which starts at 1 and is unbounded here.

  \<^verbatim>\<open>store.put(value)\<close>: with a key at the key path the record is stored under that key
  and replaces the record that has it, if any; without one the generator's current number
  becomes the key and is written into the stored copy as its \<^verbatim>\<open>id\<close>.\<close>

definition store_put :: "object_store \<Rightarrow> jsobj \<Rightarrow> js_exception + object_store" where
  "store_put st v =
     (case extract_key v of
        Some k \<Rightarrow>
          if valid_key k
          then Inr (st\<lparr>entries := insert_entry k v (entries st),
                       keygen := bump_keygen k (keygen st)\<rparr>)
          else Inl DataError
      | None \<Rightarrow>
          let k = JNumber (Finite (of_nat (keygen st)))
          in Inr (st\<lparr>entries := insert_entry k (v(''id'' \<mapsto> k)) (entries st),
                       keygen := keygen st + 1\<rparr>))"

text \<open>Modelled from the spec: the host's \<^verbatim>\<open>store.delete(key)\<close>, which the repository
  calls and does not contain; in the spec's words it ``removes the record with the given
  key if present (no error if absent --- host semantics)''. A value that is not a valid
  key is refused with a DataError; otherwise the record with that key, if there is one, is
  removed.\<close>

definition store_delete :: "object_store \<Rightarrow> jsval \<Rightarrow> js_exception + object_store" where
  "store_delete st key =
     (if valid_key key
      then Inr (st\<lparr>entries := filter (\<lambda>e. fst e \<noteq> key) (entries st)\<rparr>)
      else Inl DataError)"

text \<open>Modelled from the spec: the host's \<^verbatim>\<open>store.getAll()\<close>, which the repository calls
  and does not contain; in the spec's words it ``returns the full ordered sequence of
  records currently in the store''.\<close>

definition store_getAll :: "object_store \<Rightarrow> jsobj list" where
  "store_getAll st = map snd (entries st)"

text \<open>The invariant of a store with in-line keys and a key generator: every record is
  stored under a valid key, carries that key as its \<^verbatim>\<open>id\<close>, and a numeric key is below the
  generator's current number, which is positive.\<close>

definition entry_ok :: "nat \<Rightarrow> jsval \<times> jsobj \<Rightarrow> bool" where
  "entry_ok g e =
     (valid_key (fst e) \<and> snd e ''id'' = Some (fst e) \<and>
      (case fst e of JNumber (Finite r) \<Rightarrow> r < of_nat g | _ \<Rightarrow> True))"

definition store_ok :: "object_store \<Rightarrow> bool" where
  "store_ok st = (0 < keygen st \<and> list_all (entry_ok (keygen st)) (entries st))"

datatype tx_mode = ReadOnly | ReadWrite

datatype host_call =
    Transaction string tx_mode
  | Put string jsobj
  | GetAll string
  | Delete string jsval

text \<open>A database: its object stores by name, the error code the host reports for a
  request when it fails it (\<open>None\<close>: the host serves the request), and the calls the
  wrapper has made on it, oldest first.\<close>

record database =
  stores :: "string \<rightharpoonup> object_store"
  fault :: "string option"
  trace :: "host_call list"

section \<open>The wrapper\<close>

text \<open>The fields of \<^verbatim>\<open>IndexedDBWrapper\<close> but the upgrade callback; \<open>db\<close> is \<open>None\<close> until
  \<^verbatim>\<open>open\<close> has resolved, and \<^verbatim>\<open>open\<close> itself is not modelled. Each method returns a
  promise; the model gives the promise's settlement (\<open>Inl\<close> a rejection, \<open>Inr\<close> the
  value it resolves to) and the state afterwards. A call runs in a transaction of its own,
  so it is one step of the model. The rejections are tagged by their origin: a failed
  check, a request the host failed, an exception thrown inside the promise.\<close>

record wrapper =
  dbName :: string
  version :: nat
  db :: "database option"

datatype error =
    ValidationError string
  | StoreError string
  | Exception js_exception

definition date_required :: string where
  "date_required = ''The `date` field is required.''"

definition sum_required :: string where
  "sum_required = ''The `sum` field is required and must be a positive number.''"

definition category_required :: string where
  "category_required = ''The `category` field is required and must be a string.''"

text \<open>\<^verbatim>\<open>this.db.transaction(storeName, mode)\<close> followed by
  \<^verbatim>\<open>transaction.objectStore(storeName)\<close>: reading \<^verbatim>\<open>transaction\<close> of \<^verbatim>\<open>null\<close> throws a
  TypeError, a store the database does not have throws a NotFoundError.\<close>

definition transaction :: "wrapper \<Rightarrow> string \<Rightarrow> tx_mode \<Rightarrow> error + database \<times> object_store" where
  "transaction w storeName mode =
     (case db w of
        None \<Rightarrow> Inl (Exception TypeError)
      | Some d \<Rightarrow>
          (case stores d storeName of
             None \<Rightarrow> Inl (Exception NotFoundError)
           | Some st \<Rightarrow> Inr (d\<lparr>trace := trace d @ [Transaction storeName mode]\<rparr>, st)))"

text \<open>\<^verbatim>\<open>addOrUpdate(storeName, data)\<close>. The third component of the result is the caller's
  object after the call: \<^verbatim>\<open>delete data.id\<close> acts on the object itself. The comparison
  \<^verbatim>\<open>data.sum <= 0\<close> is reached only for a sum of type number, where \<open>to_number\<close> is the
  number itself; a comparison with NaN is false.\<close>

definition addOrUpdate :: "wrapper \<Rightarrow> string \<Rightarrow> jsobj \<Rightarrow> (error + string) \<times> wrapper \<times> jsobj" where
  "addOrUpdate w storeName data =
     (if \<not> js_truthy (js_get data ''date'')
      then (Inl (ValidationError date_required), w, data)
      else if js_typeof (js_get data ''sum'') \<noteq> ''number''
              \<or> num_le (to_number (js_get data ''sum'')) (Finite 0)
      then (Inl (ValidationError sum_required), w, data)
      else if \<not> js_truthy (js_get data ''category'')
              \<or> js_typeof (js_get data ''category'') \<noteq> ''string''
      then (Inl (ValidationError category_required), w, data)
      else
        (case transaction w storeName ReadWrite of
           Inl e \<Rightarrow> (Inl e, w, data)
         | Inr (d, st) \<Rightarrow>
             let data' = (if ''id'' \<in> dom data then data(''id'' := None) else data);
                 d' = d\<lparr>trace := trace d @ [Put storeName data']\<rparr>
             in (case store_put st data' of
                   Inl x \<Rightarrow> (Inl (Exception x), w\<lparr>db := Some d'\<rparr>, data')
                 | Inr st' \<Rightarrow>
                     (case fault d' of
                        Some code \<Rightarrow>
                          (Inl (StoreError (''Failed to add/update data: '' @ code)),
                           w\<lparr>db := Some d'\<rparr>, data')
                      | None \<Rightarrow>
                          (Inr ''Data added/updated successfully'',
                           w\<lparr>db := Some (d'\<lparr>stores := (stores d')(storeName \<mapsto> st')\<rparr>)\<rparr>,
                           data')))))"

definition getAll :: "wrapper \<Rightarrow> string \<Rightarrow> (error + jsobj list) \<times> wrapper" where
  "getAll w storeName =
     (case transaction w storeName ReadOnly of
        Inl e \<Rightarrow> (Inl e, w)
      | Inr (d, st) \<Rightarrow>
          let d' = d\<lparr>trace := trace d @ [GetAll storeName]\<rparr>
          in (case fault d' of
                Some code \<Rightarrow>
                  (Inl (StoreError (''Failed to fetch records: '' @ code)), w\<lparr>db := Some d'\<rparr>)
              | None \<Rightarrow> (Inr (store_getAll st), w\<lparr>db := Some d'\<rparr>)))"

definition delete :: "wrapper \<Rightarrow> string \<Rightarrow> jsval \<Rightarrow> (error + string) \<times> wrapper" where
  "delete w storeName key =
     (case transaction w storeName ReadWrite of
        Inl e \<Rightarrow> (Inl e, w)
      | Inr (d, st) \<Rightarrow>
          let d' = d\<lparr>trace := trace d @ [Delete storeName key]\<rparr>
          in (case store_delete st key of
                Inl x \<Rightarrow> (Inl (Exception x), w\<lparr>db := Some d'\<rparr>)
              | Inr st' \<Rightarrow>
                  (case fault d' of
                     Some code \<Rightarrow>
                       (Inl (StoreError (''Failed to delete record: '' @ code)),
                        w\<lparr>db := Some d'\<rparr>)
                   | None \<Rightarrow>
                       (Inr ''Record deleted successfully'',
                        w\<lparr>db := Some (d'\<lparr>stores := (stores d')(storeName \<mapsto> st')\<rparr>)\<rparr>))))"

section \<open>Reports\<close>

text \<open>
  A report is the object \<^verbatim>\<open>{}\<close> filled by \<^verbatim>\<open>report[record.category] = {totalSum, items}\<close>: a
  mapping from property names to entries. The lookup \<^verbatim>\<open>report[c]\<close> also finds what
  \<^verbatim>\<open>{}\<close> inherits from \<^verbatim>\<open>Object.prototype\<close>: under one of the names below it yields a
  function (or the prototype itself), which is truthy, so no entry is created;
  \<^verbatim>\<open>.totalSum += record.sum\<close> then writes to that inherited object (a write the model does
  not keep), its \<^verbatim>\<open>items\<close> is \<^verbatim>\<open>undefined\<close> and \<^verbatim>\<open>.items.push\<close> throws a TypeError.
\<close>

record entry =
  totalSum :: jsval
  items :: "jsobj list"

type_synonym report = "string \<rightharpoonup> entry"

definition object_prototype_keys :: "string list" where
  "object_prototype_keys =
     [''constructor'', ''__defineGetter__'', ''__defineSetter__'', ''hasOwnProperty'',
      ''__lookupGetter__'', ''__lookupSetter__'', ''isPrototypeOf'',
      ''propertyIsEnumerable'', ''toString'', ''valueOf'', ''__proto__'',
      ''toLocaleString'']"

text \<open>The body of the \<^verbatim>\<open>forEach\<close> callback, on one record.\<close>

definition add_to_report :: "host \<Rightarrow> report \<Rightarrow> jsobj \<Rightarrow> js_exception + report" where
  "add_to_report h report record =
     (let c = to_string h (js_get record ''category'')
      in (case report c of
            Some e \<Rightarrow>
              Inr (report(c \<mapsto> \<lparr>totalSum = js_plus h (totalSum e) (js_get record ''sum''),
                                 items = items e @ [record]\<rparr>))
          | None \<Rightarrow>
              if c \<in> set object_prototype_keys then Inl TypeError
              else Inr (report(c \<mapsto>
                     \<lparr>totalSum = js_plus h (JNumber (Finite 0)) (js_get record ''sum''),
                      items = [record]\<rparr>))))"

text \<open>\<^verbatim>\<open>forEach\<close> over the selected records; an exception ends the loop.\<close>

fun group_records :: "host \<Rightarrow> report \<Rightarrow> jsobj list \<Rightarrow> js_exception + report" where
  "group_records h report [] = Inr report"
| "group_records h report (r # rs) =
     (case add_to_report h report r of
        Inl x \<Rightarrow> Inl x
      | Inr report' \<Rightarrow> group_records h report' rs)"

text \<open>A report method resolves to a string or to a report object.\<close>

datatype report_value = Message string | Report report

definition yearlyRecords :: "host \<Rightarrow> jsobj list \<Rightarrow> jsval \<Rightarrow> jsobj list" where
  "yearlyRecords h records year =
     filter (\<lambda>record. num_strict_eq (getFullYear (new_Date h (js_get record ''date''))) year)
       records"

definition getYearlyReport ::
    "host \<Rightarrow> wrapper \<Rightarrow> string \<Rightarrow> jsval \<Rightarrow> (error + report_value) \<times> wrapper" where
  "getYearlyReport h w storeName year =
     (case getAll w storeName of
        (Inl e, w') \<Rightarrow> (Inl e, w')
      | (Inr records, w') \<Rightarrow>
          if length records = 0
          then (Inr (Message (''No records found for '' @ to_string h year @ ''.'')), w')
          else (case group_records h Map.empty (yearlyRecords h records year) of
                  Inl x \<Rightarrow> (Inl (Exception x), w')
                | Inr report \<Rightarrow> (Inr (Report report), w')))"

definition monthlyRecords :: "host \<Rightarrow> jsobj list \<Rightarrow> jsval \<Rightarrow> jsval \<Rightarrow> jsobj list" where
  "monthlyRecords h records month year =
     filter (\<lambda>record.
         num_strict_eq (num_add (getMonth (new_Date h (js_get record ''date''))) (Finite 1)) month
         \<and> num_strict_eq (getFullYear (new_Date h (js_get record ''date''))) year)
       records"

definition getMonthlyReport ::
    "host \<Rightarrow> wrapper \<Rightarrow> string \<Rightarrow> jsval \<Rightarrow> jsval \<Rightarrow> (error + report_value) \<times> wrapper" where
  "getMonthlyReport h w storeName month year =
     (case getAll w storeName of
        (Inl e, w') \<Rightarrow> (Inl e, w')
      | (Inr records, w') \<Rightarrow>
          if length records = 0
          then (Inr (Message (''No records found for '' @ to_string h month @ ''/''
                                @ to_string h year @ ''.'')), w')
          else if length (monthlyRecords h records month year) = 0
          then (Inr (Message (''No records found for '' @ to_string h month @ ''/''
                                @ to_string h year @ ''.'')), w')
          else (case group_records h Map.empty (monthlyRecords h records month year) of
                  Inl x \<Rightarrow> (Inl (Exception x), w')
                | Inr report \<Rightarrow> (Inr (Report report), w')))"

section \<open>Reading the model\<close>

text \<open>The three checks at the head of \<^verbatim>\<open>addOrUpdate\<close>, on their own: the message of the
  first check that fails, \<open>None\<close> when the record passes all three.\<close>

definition validate :: "jsobj \<Rightarrow> string option" where
  "validate data =
     (if \<not> js_truthy (js_get data ''date'') then Some date_required
      else if js_typeof (js_get data ''sum'') \<noteq> ''number''
              \<or> num_le (to_number (js_get data ''sum'')) (Finite 0)
      then Some sum_required
      else if \<not> js_truthy (js_get data ''category'')
              \<or> js_typeof (js_get data ''category'') \<noteq> ''string''
      then Some category_required
      else None)"

text \<open>The records a store of the wrapper's database holds, with their keys, and the
  calls made on the database so far.\<close>

definition store_of :: "wrapper \<Rightarrow> string \<Rightarrow> object_store option" where
  "store_of w storeName = (case db w of None \<Rightarrow> None | Some d \<Rightarrow> stores d storeName)"

definition store_entries :: "wrapper \<Rightarrow> string \<Rightarrow> (jsval \<times> jsobj) list" where
  "store_entries w storeName =
     (case store_of w storeName of None \<Rightarrow> [] | Some st \<Rightarrow> entries st)"

definition calls :: "wrapper \<Rightarrow> host_call list" where
  "calls w = (case db w of None \<Rightarrow> [] | Some d \<Rightarrow> trace d)"

text \<open>The database is open and the host serves its requests.\<close>

definition serving :: "wrapper \<Rightarrow> bool" where
  "serving w = (case db w of None \<Rightarrow> False | Some d \<Rightarrow> fault d = None)"

text \<open>The specification's reading of the two filters: the calendar year of the record's
  date is the given year; its calendar month, counted from 1, is the given month. A
  record whose date the host cannot read has neither.\<close>

definition calendar_year_is :: "host \<Rightarrow> jsobj \<Rightarrow> jsval \<Rightarrow> bool" where
  "calendar_year_is h record year =
     (case new_Date h (js_get record ''date'') of
        InvalidDate \<Rightarrow> False
      | ValidDate y m d t \<Rightarrow> year = JNumber (Finite (of_int y)))"

definition calendar_month_is :: "host \<Rightarrow> jsobj \<Rightarrow> jsval \<Rightarrow> bool" where
  "calendar_month_is h record month =
     (case new_Date h (js_get record ''date'') of
        InvalidDate \<Rightarrow> False
      | ValidDate y m d t \<Rightarrow> month = JNumber (Finite (of_nat (m + 1))))"

text \<open>The specification's report: under a category name, the records of that category
  in the order of the list, and their sums added up from 0 in that order.\<close>

definition category_items :: "host \<Rightarrow> string \<Rightarrow> jsobj list \<Rightarrow> jsobj list" where
  "category_items h c rs = filter (\<lambda>r. to_string h (js_get r ''category'') = c) rs"

definition sum_from :: "host \<Rightarrow> jsval \<Rightarrow> jsobj list \<Rightarrow> jsval" where
  "sum_from h start rs = foldl (js_plus h) start (map (\<lambda>r. js_get r ''sum'') rs)"

definition report_items :: "report \<Rightarrow> string \<Rightarrow> jsobj list" where
  "report_items rep c = (case rep c of None \<Rightarrow> [] | Some e \<Rightarrow> items e)"

subsection \<open>The example data of the specification\<close>

definition rec_jan_2023 :: jsobj where
  "rec_jan_2023 =
     [''date'' \<mapsto> JDate (ValidDate 2023 0 5 0), ''sum'' \<mapsto> JNumber (Finite 10),
      ''category'' \<mapsto> JString ''food'']"

definition rec_jun_2023 :: jsobj where
  "rec_jun_2023 =
     [''date'' \<mapsto> JDate (ValidDate 2023 5 1 0), ''sum'' \<mapsto> JNumber (Finite 20),
      ''category'' \<mapsto> JString ''food'']"

definition rec_jan_2022 :: jsobj where
  "rec_jan_2022 =
     [''date'' \<mapsto> JDate (ValidDate 2022 0 1 0), ''sum'' \<mapsto> JNumber (Finite 5),
      ''category'' \<mapsto> JString ''food'']"

text \<open>The January record under a category named like a property that every object
  inherits.\<close>

definition rec_constructor :: jsobj where
  "rec_constructor = rec_jan_2023(''category'' \<mapsto> JString ''constructor'')"

definition with_id :: "nat \<Rightarrow> jsobj \<Rightarrow> jsval \<times> jsobj" where
  "with_id n r = (JNumber (Finite (of_nat n)), r(''id'' \<mapsto> JNumber (Finite (of_nat n))))"

definition open_wrapper :: "object_store \<Rightarrow> wrapper" where
  "open_wrapper st =
     \<lparr>dbName = ''costsdb'', version = 1,
      db = Some \<lparr>stores = [''costs'' \<mapsto> st], fault = None, trace = []\<rparr>\<rparr>"

definition example_store :: object_store where
  "example_store =
     \<lparr>entries = [with_id 1 rec_jan_2023, with_id 2 rec_jun_2023, with_id 3 rec_jan_2022],
      keygen = 4\<rparr>"

definition constructor_store :: object_store where
  "constructor_store = \<lparr>entries = [with_id 1 rec_constructor], keygen = 2\<rparr>"

section \<open>Properties of the object store\<close>

lemma insert_entry_mem: "(k, v) \<in> set (insert_entry k v es)"
  by (induction es) auto

lemma insert_entry_keeps: "e \<in> set es \<Longrightarrow> fst e \<noteq> k \<Longrightarrow> e \<in> set (insert_entry k v es)"
  by (induction es) auto

lemma insert_entry_subset: "e \<in> set (insert_entry k v es) \<Longrightarrow> e = (k, v) \<or> e \<in> set es"
  by (induction es) (auto split: if_splits)

text \<open>Under a key the store does not hold, the new record goes between two parts of the
  list, which stay as they are.\<close>

lemma insert_entry_fresh:
  "k \<notin> fst ` set es \<Longrightarrow> \<exists>xs ys. es = xs @ ys \<and> insert_entry k v es = xs @ (k, v) # ys"
proof (induction es)
  case Nil
  then show ?case by simp
next
  case (Cons e es)
  obtain k' v' where e: "e = (k', v')" by (cases e)
  show ?case
  proof (cases "key_less k k'")
    case True
    then have "e # es = [] @ (e # es) \<and> insert_entry k v (e # es) = [] @ (k, v) # (e # es)"
      by (simp add: e)
    then show ?thesis by blast
  next
    case False
    from Cons.prems have ne: "k \<noteq> k'" and nin: "k \<notin> fst ` set es" by (auto simp: e)
    from Cons.IH [OF nin] obtain xs ys where
      "es = xs @ ys" "insert_entry k v es = xs @ (k, v) # ys" by blast
    then have "e # es = (e # xs) @ ys \<and> insert_entry k v (e # es) = (e # xs) @ (k, v) # ys"
      using False ne by (simp add: e)
    then show ?thesis by blast
  qed
qed

lemma list_all_insert_entry:
  "list_all P es \<Longrightarrow> P (k, v) \<Longrightarrow> list_all P (insert_entry k v es)"
  by (induction es) auto

lemma store_ok_fresh:
  "store_ok st \<Longrightarrow> JNumber (Finite (of_nat (keygen st))) \<notin> fst ` set (entries st)"
  by (fastforce simp: store_ok_def list_all_iff entry_ok_def)

lemma store_ok_empty: "store_ok empty_store"
  by (simp add: store_ok_def empty_store_def)

lemma entry_ok_mono: "entry_ok g e \<Longrightarrow> g \<le> g' \<Longrightarrow> entry_ok g' e"
  by (auto simp: entry_ok_def split: jsval.splits jsnum.splits)

lemma bump_keygen_ge: "g \<le> bump_keygen k g"
proof (cases k)
  case (JNumber n)
  then show ?thesis
  proof (cases n)
    case (Finite r)
    have "rat_of_nat g \<le> r \<Longrightarrow> g \<le> nat \<lfloor>r\<rfloor> + 1" by linarith
    with JNumber Finite show ?thesis by simp
  qed simp
qed simp_all

lemma bump_keygen_above: "r < rat_of_nat (bump_keygen (JNumber (Finite r)) g)"
proof -
  have "r < rat_of_nat (nat \<lfloor>r\<rfloor> + 1)" if "rat_of_nat g \<le> r" using that by linarith
  then show ?thesis by auto
qed

text \<open>Both operations of the store keep its invariant, on either branch of \<open>store_put\<close>.\<close>

lemma store_ok_put:
  assumes ok: "store_ok st" and put: "store_put st v = Inr st'"
  shows "store_ok st'"
proof (cases "extract_key v")
  case None
  let ?k = "JNumber (Finite (of_nat (keygen st)))"
  from None put have st': "st' = st\<lparr>entries := insert_entry ?k (v(''id'' \<mapsto> ?k)) (entries st),
      keygen := keygen st + 1\<rparr>"
    by (simp add: store_put_def Let_def)
  have old: "list_all (entry_ok (keygen st + 1)) (entries st)"
    using ok entry_ok_mono [where g = "keygen st" and g' = "keygen st + 1"]
    by (auto simp: store_ok_def list_all_iff)
  have new: "entry_ok (keygen st + 1) (?k, v(''id'' \<mapsto> ?k))"
    by (simp add: entry_ok_def)
  have "list_all (entry_ok (keygen st + 1)) (insert_entry ?k (v(''id'' \<mapsto> ?k)) (entries st))"
    using old new by (rule list_all_insert_entry)
  then show ?thesis by (simp add: st' store_ok_def)
next
  case (Some k)
  with put have vk: "valid_key k"
    and st': "st' = st\<lparr>entries := insert_entry k v (entries st),
      keygen := bump_keygen k (keygen st)\<rparr>"
    by (auto simp: store_put_def split: if_splits)
  have old: "list_all (entry_ok (bump_keygen k (keygen st))) (entries st)"
    using ok entry_ok_mono [where g = "keygen st" and g' = "bump_keygen k (keygen st)"]
      bump_keygen_ge [of "keygen st" k]
    by (auto simp: store_ok_def list_all_iff)
  from Some have vid: "v ''id'' = Some k"
    by (auto simp: extract_key_def split: option.splits jsval.splits)
  have new: "entry_ok (bump_keygen k (keygen st)) (k, v)"
  proof (cases k)
    case (JNumber n)
    show ?thesis
    proof (cases n)
      case NaN
      with vk JNumber show ?thesis by simp
    next
      case (Finite r)
      show ?thesis
        using bump_keygen_above [of r "keygen st"] vid
        by (auto simp: entry_ok_def JNumber Finite simp del: bump_keygen.simps)
    qed
  qed (use vk vid in \<open>auto simp: entry_ok_def\<close>)
  have "list_all (entry_ok (bump_keygen k (keygen st))) (insert_entry k v (entries st))"
    using old new by (rule list_all_insert_entry)
  moreover have "0 < bump_keygen k (keygen st)"
    using ok bump_keygen_ge [of "keygen st" k] by (simp add: store_ok_def)
  ultimately show ?thesis by (simp add: st' store_ok_def)
qed

lemma store_ok_delete: "store_ok st \<Longrightarrow> store_delete st k = Inr st' \<Longrightarrow> store_ok st'"
  by (auto simp: store_ok_def store_delete_def list_all_iff split: if_splits)

lemma store_ok_example: "store_ok example_store"
  by (simp add: store_ok_def example_store_def with_id_def entry_ok_def)

section \<open>Properties of \<^verbatim>\<open>addOrUpdate\<close>\<close>

lemma messages_distinct: "distinct [date_required, sum_required, category_required]"
  by (simp add: date_required_def sum_required_def category_required_def)

lemma addOrUpdate_refused:
  "validate data = Some msg \<Longrightarrow> addOrUpdate w name data = (Inl (ValidationError msg), w, data)"
  by (auto simp: validate_def addOrUpdate_def split: if_splits)

lemma delete_id:
  "(if ''id'' \<in> dom data then data(''id'' := None) else data) = data(''id'' := None)"
  by (auto simp: fun_eq_iff)

lemma extract_key_deleted: "extract_key (data(''id'' := None)) = None"
  by (simp add: extract_key_def)

lemma addOrUpdate_no_db:
  "validate data = None \<Longrightarrow> db w = None \<Longrightarrow>
   addOrUpdate w name data = (Inl (Exception TypeError), w, data)"
  by (auto simp: validate_def addOrUpdate_def transaction_def split: if_splits)

lemma addOrUpdate_no_store:
  "validate data = None \<Longrightarrow> db w = Some d \<Longrightarrow> stores d name = None \<Longrightarrow>
   addOrUpdate w name data = (Inl (Exception NotFoundError), w, data)"
  by (auto simp: validate_def addOrUpdate_def transaction_def split: if_splits)

text \<open>A record that passes the checks, on an open database that has the store: the
  transaction is opened, the \<^verbatim>\<open>id\<close> is deleted from the caller's object, the object is put,
  and the store files a copy under the generator's number unless the host fails the
  request.\<close>

lemma addOrUpdate_accepted:
  assumes "validate data = None" "db w = Some d" "stores d name = Some st"
  shows "addOrUpdate w name data =
    (case fault d of
       Some code \<Rightarrow>
         (Inl (StoreError (''Failed to add/update data: '' @ code)),
          w\<lparr>db := Some (d\<lparr>trace := trace d @ [Transaction name ReadWrite,
                                                Put name (data(''id'' := None))]\<rparr>)\<rparr>,
          data(''id'' := None))
     | None \<Rightarrow>
         (Inr ''Data added/updated successfully'',
          w\<lparr>db := Some (d\<lparr>trace := trace d @ [Transaction name ReadWrite,
                                                Put name (data(''id'' := None))],
                          stores := (stores d)(name \<mapsto>
                            st\<lparr>entries := insert_entry (JNumber (Finite (of_nat (keygen st))))
                                   (data(''id'' \<mapsto> JNumber (Finite (of_nat (keygen st)))))
                                   (entries st),
                               keygen := keygen st + 1\<rparr>)\<rparr>)\<rparr>,
          data(''id'' := None)))"
  using assms
  by (auto simp: validate_def addOrUpdate_def transaction_def delete_id store_put_def
      extract_key_deleted Let_def split: if_splits option.splits)

text \<open>
  A record that fails one of the three checks (a falsy date, a sum that is not of type
  number or is a number at most 0, a falsy category, the empty string included, or a
  category that is not a string) is rejected with a validation error. The message is the
  message of a check that the record fails (the first one in the order date, sum,
  category), the three messages differ from one another, and the wrapper and the caller's
  object are returned as they were: no transaction is opened, no call reaches the host, in
  whatever state the wrapper is.
\<close>

lemma addOrUpdate_rejects_failed_check:
  assumes "\<not> js_truthy (js_get data ''date'')
           \<or> js_typeof (js_get data ''sum'') \<noteq> ''number''
           \<or> num_le (to_number (js_get data ''sum'')) (Finite 0)
           \<or> \<not> js_truthy (js_get data ''category'')
           \<or> js_typeof (js_get data ''category'') \<noteq> ''string''"
  shows "(\<exists>msg. addOrUpdate w storeName data = (Inl (ValidationError msg), w, data)
            \<and> (msg = date_required \<and> \<not> js_truthy (js_get data ''date'')
               \<or> msg = sum_required
                  \<and> (js_typeof (js_get data ''sum'') \<noteq> ''number''
                     \<or> num_le (to_number (js_get data ''sum'')) (Finite 0))
               \<or> msg = category_required
                  \<and> (\<not> js_truthy (js_get data ''category'')
                     \<or> js_typeof (js_get data ''category'') \<noteq> ''string'')))
         \<and> distinct [date_required, sum_required, category_required]"
proof -
  have "\<not> js_truthy (js_get data ''date'')
        \<or> (js_typeof (js_get data ''sum'') \<noteq> ''number''
            \<or> num_le (to_number (js_get data ''sum'')) (Finite 0))
        \<or> (\<not> js_truthy (js_get data ''category'')
            \<or> js_typeof (js_get data ''category'') \<noteq> ''string'')"
    using assms by blast
  then have "\<exists>msg. addOrUpdate w storeName data = (Inl (ValidationError msg), w, data)
            \<and> (msg = date_required \<and> \<not> js_truthy (js_get data ''date'')
               \<or> msg = sum_required
                  \<and> (js_typeof (js_get data ''sum'') \<noteq> ''number''
                     \<or> num_le (to_number (js_get data ''sum'')) (Finite 0))
               \<or> msg = category_required
                  \<and> (\<not> js_truthy (js_get data ''category'')
                     \<or> js_typeof (js_get data ''category'') \<noteq> ''string''))"
    unfolding addOrUpdate_def by (simp only: if_P if_not_P split: if_split) blast
  then show ?thesis using messages_distinct by blast
qed

text \<open>The values that fail a check: a sum that is missing, a string, or a number at most
  0; a date that is missing, \<^verbatim>\<open>null\<close>, 0 or the empty string; a category that is missing,
  \<^verbatim>\<open>null\<close>, the empty string, or a number. The sum NaN fails none: it is of type number,
  and its comparison with 0 is false.\<close>

lemma failed_checks:
  "js_get data ''sum'' = JUndefined \<Longrightarrow> js_typeof (js_get data ''sum'') \<noteq> ''number''"
  "js_get data ''sum'' = JString s \<Longrightarrow> js_typeof (js_get data ''sum'') \<noteq> ''number''"
  "js_get data ''sum'' = JNumber (Finite r) \<Longrightarrow> r \<le> 0 \<Longrightarrow>
     num_le (to_number (js_get data ''sum'')) (Finite 0)"
  "js_get data ''date'' \<in> {JUndefined, JNull, JNumber (Finite 0), JString []} \<Longrightarrow>
     \<not> js_truthy (js_get data ''date'')"
  "js_get data ''category'' \<in> {JUndefined, JNull, JString []} \<Longrightarrow>
     \<not> js_truthy (js_get data ''category'')"
  "js_get data ''category'' = JNumber n \<Longrightarrow> js_typeof (js_get data ''category'') \<noteq> ''string''"
  "js_typeof (JNumber NaN) = ''number'' \<and> \<not> num_le (to_number (JNumber NaN)) (Finite 0)"
  by auto

text \<open>A record with the sum 0, offered to an open database: the sum message, and
  neither the database nor the record has changed.\<close>

lemma addOrUpdate_rejects_sum_zero:
  "addOrUpdate (open_wrapper example_store) ''costs''
       (rec_jan_2023(''sum'' \<mapsto> JNumber (Finite 0)))
     = (Inl (ValidationError sum_required), open_wrapper example_store,
        rec_jan_2023(''sum'' \<mapsto> JNumber (Finite 0)))"
  using addOrUpdate_rejects_failed_check
    [of "rec_jan_2023(''sum'' \<mapsto> JNumber (Finite 0))" "open_wrapper example_store" "''costs''"]
  by (auto simp: js_get_def rec_jan_2023_def date_required_def sum_required_def
      category_required_def)

lemma validate_valid:
  assumes "js_truthy (js_get data ''date'')"
    and "js_get data ''sum'' = JNumber (Finite r)" and "0 < r"
    and "js_get data ''category'' = JString c" and "c \<noteq> []"
  shows "validate data = None"
  using assms by (simp add: validate_def)

lemma validate_nan:
  assumes "js_truthy (js_get data ''date'')" and "js_get data ''sum'' = JNumber NaN"
    and "js_get data ''category'' = JString c" and "c \<noteq> []"
  shows "validate data = None"
  using assms by (simp add: validate_def)

lemma open_store:
  assumes "store_of w name = Some st"
  obtains d where "db w = Some d" and "stores d name = Some st"
  using assms by (auto simp: store_of_def split: option.splits)

lemma open_serving:
  assumes "store_of w name = Some st" and "serving w"
  obtains d where "db w = Some d" and "stores d name = Some st" and "fault d = None"
  using assms by (auto simp: store_of_def serving_def split: option.splits)

text \<open>One accepted call on a serving wrapper, seen from the store.\<close>

lemma addOrUpdate_step:
  assumes "validate data = None" and "store_of w name = Some st" and "serving w"
  shows "fst (addOrUpdate w name data) = Inr ''Data added/updated successfully''
       \<and> store_of (fst (snd (addOrUpdate w name data))) name
           = Some (st\<lparr>entries := insert_entry (JNumber (Finite (of_nat (keygen st))))
                                   (data(''id'' \<mapsto> JNumber (Finite (of_nat (keygen st)))))
                                   (entries st),
                       keygen := keygen st + 1\<rparr>)
       \<and> serving (fst (snd (addOrUpdate w name data)))
       \<and> calls (fst (snd (addOrUpdate w name data)))
           = calls w @ [Transaction name ReadWrite, Put name (data(''id'' := None))]
       \<and> snd (snd (addOrUpdate w name data)) = data(''id'' := None)"
proof -
  from assms(2,3) obtain d where d: "db w = Some d" "stores d name = Some st" "fault d = None"
    by (rule open_serving)
  show ?thesis
    using addOrUpdate_accepted [OF assms(1) d(1,2)] d
    by (simp add: store_of_def serving_def calls_def)
qed

text \<open>The calls of the wrapper keep the invariant of the store.\<close>

lemma addOrUpdate_store_ok:
  assumes "store_of w name = Some st" and "store_ok st"
    and "store_of (fst (snd (addOrUpdate w name data))) name = Some st'"
  shows "store_ok st'"
proof (cases "validate data")
  case (Some msg)
  with assms show ?thesis by (simp add: addOrUpdate_refused)
next
  case None
  from assms(1) obtain d where d: "db w = Some d" "stores d name = Some st"
    by (rule open_store)
  have put: "store_put st (data(''id'' := None))
      = Inr (st\<lparr>entries := insert_entry (JNumber (Finite (of_nat (keygen st))))
                                (data(''id'' \<mapsto> JNumber (Finite (of_nat (keygen st)))))
                                (entries st),
                  keygen := keygen st + 1\<rparr>)"
    by (simp add: store_put_def extract_key_deleted Let_def)
  show ?thesis
  proof (cases "fault d")
    case (Some code)
    with addOrUpdate_accepted [OF None d] assms(3) d have "st' = st"
      by (simp add: store_of_def)
    with assms(2) show ?thesis by simp
  next
    case fnone: None
    with addOrUpdate_accepted [OF \<open>validate data = None\<close> d] assms(3)
    have "store_put st (data(''id'' := None)) = Inr st'"
      by (simp add: store_of_def put)
    with assms(2) show ?thesis by (rule store_ok_put)
  qed
qed

subsection \<open>The example store\<close>

lemma open_wrapper_store: "store_of (open_wrapper st) ''costs'' = Some st"
  by (simp add: store_of_def open_wrapper_def)

lemma open_wrapper_serving: "serving (open_wrapper st)"
  by (simp add: serving_def open_wrapper_def)

lemma example_records:
  "store_getAll example_store
     = [snd (with_id 1 rec_jan_2023), snd (with_id 2 rec_jun_2023), snd (with_id 3 rec_jan_2022)]"
  by (simp add: store_getAll_def example_store_def)

lemma example_valid:
  "validate rec_jan_2023 = None" "validate rec_jun_2023 = None" "validate rec_jan_2022 = None"
  by (simp_all add: validate_def js_get_def rec_jan_2023_def rec_jun_2023_def rec_jan_2022_def)

text \<open>The example store is what three calls of \<^verbatim>\<open>addOrUpdate\<close> with the three records of
  the specification leave in a store that was empty.\<close>

lemma example_store_built:
  "store_of (fst (snd (addOrUpdate (fst (snd (addOrUpdate (fst (snd (addOrUpdate
       (open_wrapper empty_store) ''costs'' rec_jan_2023))) ''costs'' rec_jun_2023)))
       ''costs'' rec_jan_2022))) ''costs''
   = Some example_store"
proof -
  note s1 = addOrUpdate_step [OF example_valid(1) open_wrapper_store open_wrapper_serving,
      THEN conjunct2]
  note s2 = addOrUpdate_step [OF example_valid(2) s1 [THEN conjunct1]
      s1 [THEN conjunct2, THEN conjunct1], THEN conjunct2]
  note s3 = addOrUpdate_step [OF example_valid(3) s2 [THEN conjunct1]
      s2 [THEN conjunct2, THEN conjunct1], THEN conjunct2]
  show ?thesis
    unfolding s3 [THEN conjunct1]
    by (simp add: empty_store_def example_store_def with_id_def)
qed

text \<open>What the host does with an \<^verbatim>\<open>id\<close> that is left on the record: the record is filed
  under that key, in place of the record that had it.\<close>

lemma store_put_own_id:
  "v ''id'' = Some k \<Longrightarrow> valid_key k \<Longrightarrow>
   store_put st v = Inr (st\<lparr>entries := insert_entry k v (entries st),
                            keygen := bump_keygen k (keygen st)\<rparr>)"
  by (cases k) (simp_all add: store_put_def extract_key_def)

lemma store_put_own_id_example:
  "store_put example_store (snd (with_id 2 rec_jan_2022))
     = Inr \<lparr>entries = [with_id 1 rec_jan_2023, with_id 2 rec_jan_2022, with_id 3 rec_jan_2022],
            keygen = 4\<rparr>"
  by (simp add: store_put_def extract_key_def example_store_def with_id_def)

text \<open>
  Claim C4. Whatever record is offered, every \<^verbatim>\<open>put\<close> that \<^verbatim>\<open>addOrUpdate\<close> issues carries a
  value without an \<^verbatim>\<open>id\<close>; no record the store held is replaced or lost; the generator's
  number is a key the store does not hold; and when the call resolves, the store is the
  old store with exactly one record added, filed under that fresh key. Updating a record
  by its \<^verbatim>\<open>id\<close> cannot be reached through \<^verbatim>\<open>addOrUpdate\<close>.
\<close>

theorem addOrUpdate_never_updates:
  assumes "store_of w name = Some st" and "store_ok st"
    and "addOrUpdate w name data = (res, w', data')"
  shows "(\<forall>n v. Put n v \<in> set (drop (length (calls w)) (calls w')) \<longrightarrow> ''id'' \<notin> dom v)
     \<and> set (entries st) \<subseteq> set (store_entries w' name)
     \<and> JNumber (Finite (of_nat (keygen st))) \<notin> fst ` set (entries st)
     \<and> (\<forall>s. res = Inr s \<longrightarrow>
          (\<exists>xs ys. entries st = xs @ ys
             \<and> store_entries w' name
                 = xs @ (JNumber (Finite (of_nat (keygen st))),
                         data'(''id'' \<mapsto> JNumber (Finite (of_nat (keygen st))))) # ys))"
proof -
  let ?k = "JNumber (Finite (of_nat (keygen st)))"
  from assms(1) obtain d where d: "db w = Some d" "stores d name = Some st"
    by (rule open_store)
  have fresh: "?k \<notin> fst ` set (entries st)"
    using assms(2) by (rule store_ok_fresh)
  show ?thesis
  proof (cases "validate data")
    case (Some msg)
    with assms(3) have "res = Inl (ValidationError msg)" "w' = w"
      by (simp_all add: addOrUpdate_refused)
    then show ?thesis using fresh assms(1) by (simp add: store_entries_def)
  next
    case None
    note acc = addOrUpdate_accepted [OF None d, unfolded assms(3)]
    show ?thesis
    proof (cases "fault d")
      case (Some code)
      with acc show ?thesis using fresh d
        by (auto simp: store_entries_def store_of_def calls_def)
    next
      case fnone: None
      from insert_entry_fresh [OF fresh, of "data(''id'' := None, ''id'' \<mapsto> ?k)"]
      obtain xs ys where split: "entries st = xs @ ys"
          "insert_entry ?k (data(''id'' := None, ''id'' \<mapsto> ?k)) (entries st)
             = xs @ (?k, data(''id'' := None, ''id'' \<mapsto> ?k)) # ys"
        by blast
      from acc fnone have data': "data' = data(''id'' := None)"
        and ents: "store_entries w' name = insert_entry ?k (data(''id'' \<mapsto> ?k)) (entries st)"
        and cs: "calls w' = calls w @ [Transaction name ReadWrite, Put name (data(''id'' := None))]"
        using d(1) by (auto simp: store_entries_def store_of_def calls_def)
      have sub: "set (entries st) \<subseteq> set (store_entries w' name)"
        using split ents by auto
      show ?thesis
        using fresh sub split ents cs data' by auto
    qed
  qed
qed

text \<open>A record that names the \<^verbatim>\<open>id\<close> of the second record of the example store: the
  second record stays, and the store has four records afterwards.\<close>

theorem addOrUpdate_never_updates_witness:
  "fst (addOrUpdate (open_wrapper example_store) ''costs''
          (rec_jan_2022(''id'' \<mapsto> JNumber (Finite 2))))
     = Inr ''Data added/updated successfully''
   \<and> with_id 2 rec_jun_2023
       \<in> set (store_entries (fst (snd (addOrUpdate (open_wrapper example_store) ''costs''
               (rec_jan_2022(''id'' \<mapsto> JNumber (Finite 2)))))) ''costs'')
   \<and> length (store_entries (fst (snd (addOrUpdate (open_wrapper example_store) ''costs''
               (rec_jan_2022(''id'' \<mapsto> JNumber (Finite 2)))))) ''costs'') = 4"
proof -
  let ?data = "rec_jan_2022(''id'' \<mapsto> JNumber (Finite 2))"
  let ?out = "addOrUpdate (open_wrapper example_store) ''costs'' ?data"
  have v: "validate ?data = None"
    by (simp add: validate_def js_get_def rec_jan_2022_def)
  have res: "fst ?out = Inr ''Data added/updated successfully''"
    using addOrUpdate_step [OF v open_wrapper_store open_wrapper_serving] by simp
  have out: "?out = (fst ?out, fst (snd ?out), snd (snd ?out))" by simp
  note nu = addOrUpdate_never_updates [OF open_wrapper_store store_ok_example out]
  from nu have sub: "set (entries example_store) \<subseteq> set (store_entries (fst (snd ?out)) ''costs'')"
    by blast
  from nu res obtain xs ys e where "entries example_store = xs @ ys"
    "store_entries (fst (snd ?out)) ''costs'' = xs @ e # ys"
    by blast
  then have "length (store_entries (fst (snd ?out)) ''costs'') = length (entries example_store) + 1"
    by simp
  moreover have "with_id 2 rec_jun_2023 \<in> set (entries example_store)"
    "length (entries example_store) = 3"
    by (simp_all add: example_store_def)
  ultimately show ?thesis using res sub by auto
qed

section \<open>Properties of \<^verbatim>\<open>getAll\<close> and \<^verbatim>\<open>delete\<close>\<close>

lemma getAll_served:
  assumes "store_of w name = Some st" and "serving w"
  shows "fst (getAll w name) = Inr (store_getAll st)
       \<and> store_of (snd (getAll w name)) = store_of w
       \<and> serving (snd (getAll w name))"
proof -
  from assms obtain d where d: "db w = Some d" "stores d name = Some st" "fault d = None"
    by (rule open_serving)
  then show ?thesis
    by (simp add: getAll_def transaction_def Let_def store_of_def serving_def fun_eq_iff)
qed

lemma getAll_example:
  "getAll (open_wrapper st) ''costs''
     = (Inr (store_getAll st), snd (getAll (open_wrapper st) ''costs''))"
  using getAll_served [OF open_wrapper_store open_wrapper_serving, of st]
  by (simp add: prod_eq_iff)

lemma delete_store_ok:
  assumes "store_of w name = Some st" and "store_ok st"
    and "store_of (snd (delete w name key)) name = Some st'"
  shows "store_ok st'"
proof -
  from assms(1) obtain d where d: "db w = Some d" "stores d name = Some st"
    by (rule open_store)
  from d assms(3) have "st' = st \<or> store_delete st key = Inr st'"
    by (auto simp: delete_def transaction_def store_of_def Let_def
        split: sum.splits option.splits)
  with assms(2) show ?thesis by (auto intro: store_ok_delete)
qed

text \<open>
  Claim C7. A record with a date the wrapper accepts as present, a positive number as its
  sum and a non-empty string as its category, offered to a serving wrapper whose store
  satisfies the store's invariant: \<^verbatim>\<open>addOrUpdate\<close> resolves, and \<^verbatim>\<open>getAll\<close> on the wrapper it
  leaves resolves to a list that holds a record with the date, sum and category of the
  input and the generator's number as \<^verbatim>\<open>id\<close>. That number is positive and is the \<^verbatim>\<open>id\<close> of
  no record listed before; all of those are listed still.
\<close>

theorem addOrUpdate_then_getAll:
  assumes "js_truthy (js_get data ''date'')"
    and "js_get data ''sum'' = JNumber (Finite r)" and "0 < r"
    and "js_get data ''category'' = JString c" and "c \<noteq> []"
    and "store_of w name = Some st" and "serving w" and "store_ok st"
  shows "\<exists>w1 data1 records w2.
      addOrUpdate w name data = (Inr ''Data added/updated successfully'', w1, data1)
    \<and> getAll w1 name = (Inr records, w2)
    \<and> (\<exists>rec \<in> set records.
          js_get rec ''date'' = js_get data ''date''
        \<and> js_get rec ''sum'' = js_get data ''sum''
        \<and> js_get rec ''category'' = js_get data ''category''
        \<and> js_get rec ''id'' = JNumber (Finite (of_nat (keygen st))))
    \<and> 0 < keygen st
    \<and> (\<forall>old \<in> set (store_getAll st).
          js_get old ''id'' \<noteq> JNumber (Finite (of_nat (keygen st))) \<and> old \<in> set records)"
proof -
  let ?k = "JNumber (Finite (of_nat (keygen st)))"
  let ?new = "data(''id'' \<mapsto> ?k)"
  let ?st1 = "st\<lparr>entries := insert_entry ?k ?new (entries st), keygen := keygen st + 1\<rparr>"
  let ?out = "addOrUpdate w name data"
  have v: "validate data = None" using assms(1-5) by (rule validate_valid)
  note step = addOrUpdate_step [OF v assms(6,7)]
  from step have add: "?out = (Inr ''Data added/updated successfully'', fst (snd ?out), snd (snd ?out))"
    by (simp add: prod_eq_iff)
  from step have st1: "store_of (fst (snd ?out)) name = Some ?st1"
    and srv: "serving (fst (snd ?out))"
    by simp_all
  from getAll_served [OF st1 srv]
  have get: "getAll (fst (snd ?out)) name
      = (Inr (store_getAll ?st1), snd (getAll (fst (snd ?out)) name))"
    by (simp add: prod_eq_iff)
  have new: "?new \<in> set (store_getAll ?st1)"
    using insert_entry_mem [of ?k ?new "entries st"] by (force simp: store_getAll_def)
  have fields: "js_get ?new ''date'' = js_get data ''date''"
    "js_get ?new ''sum'' = js_get data ''sum''"
    "js_get ?new ''category'' = js_get data ''category''"
    "js_get ?new ''id'' = ?k"
    by (simp_all add: js_get_def)
  have fresh: "?k \<notin> fst ` set (entries st)" using assms(8) by (rule store_ok_fresh)
  have old: "js_get old ''id'' \<noteq> ?k \<and> old \<in> set (store_getAll ?st1)"
    if "old \<in> set (store_getAll st)" for old
  proof -
    from that obtain k' where e: "(k', old) \<in> set (entries st)"
      by (auto simp: store_getAll_def)
    with assms(8) have "old ''id'' = Some k'"
      by (auto simp: store_ok_def list_all_iff entry_ok_def)
    moreover from e fresh have "k' \<noteq> ?k" by force
    moreover from this e have "(k', old) \<in> set (insert_entry ?k ?new (entries st))"
      by (intro insert_entry_keeps) simp_all
    ultimately show ?thesis by (force simp: js_get_def store_getAll_def)
  qed
  have pos: "0 < keygen st" using assms(8) by (simp add: store_ok_def)
  show ?thesis
    using add get new fields old pos by blast
qed

text \<open>The June record, offered to the example store, is listed afterwards with the
  \<^verbatim>\<open>id\<close> 4.\<close>

theorem addOrUpdate_then_getAll_witness:
  "\<exists>w1 data1 records w2.
      addOrUpdate (open_wrapper example_store) ''costs'' rec_jun_2023
        = (Inr ''Data added/updated successfully'', w1, data1)
    \<and> getAll w1 ''costs'' = (Inr records, w2)
    \<and> (\<exists>rec \<in> set records.
          js_get rec ''date'' = JDate (ValidDate 2023 5 1 0)
        \<and> js_get rec ''sum'' = JNumber (Finite 20)
        \<and> js_get rec ''category'' = JString ''food''
        \<and> js_get rec ''id'' = JNumber (Finite 4))"
proof -
  have "js_truthy (js_get rec_jun_2023 ''date'')"
    "js_get rec_jun_2023 ''sum'' = JNumber (Finite 20)" "(0::rat) < 20"
    "js_get rec_jun_2023 ''category'' = JString ''food''" "''food'' \<noteq> []"
    by (simp_all add: js_get_def rec_jun_2023_def)
  moreover have "keygen example_store = 4" by (simp add: example_store_def)
  ultimately show ?thesis
    using addOrUpdate_then_getAll [where data = rec_jun_2023 and r = 20 and c = "''food''"
        and w = "open_wrapper example_store" and name = "''costs''" and st = example_store,
        OF _ _ _ _ _ open_wrapper_store open_wrapper_serving store_ok_example]
    by (simp add: js_get_def rec_jun_2023_def) blast
qed

text \<open>
  Claim C8. On a serving wrapper that has the store, \<^verbatim>\<open>delete\<close> with a valid key resolves;
  the store afterwards holds exactly the records it held under other keys, in their
  order and unchanged, its key generator is as it was, and every other store is as it
  was. When no record has the key, the call resolves all the same and the store is
  unchanged.
\<close>

theorem delete_removes_only_the_key:
  assumes "store_of w name = Some st" and "serving w" and "valid_key key"
  shows "fst (delete w name key) = Inr ''Record deleted successfully''
     \<and> store_of (snd (delete w name key)) name
         = Some (st\<lparr>entries := filter (\<lambda>e. fst e \<noteq> key) (entries st)\<rparr>)
     \<and> (\<forall>e. e \<in> set (store_entries (snd (delete w name key)) name)
             \<longleftrightarrow> e \<in> set (entries st) \<and> fst e \<noteq> key)
     \<and> (\<forall>other. other \<noteq> name \<longrightarrow>
           store_of (snd (delete w name key)) other = store_of w other)
     \<and> (key \<notin> fst ` set (entries st) \<longrightarrow> store_of (snd (delete w name key)) name = Some st)"
proof -
  from assms(1,2) obtain d where d: "db w = Some d" "stores d name = Some st" "fault d = None"
    by (rule open_serving)
  have del: "delete w name key =
     (Inr ''Record deleted successfully'',
      w\<lparr>db := Some (d\<lparr>trace := trace d @ [Transaction name ReadWrite, Delete name key],
                      stores := (stores d)(name \<mapsto>
                         st\<lparr>entries := filter (\<lambda>e. fst e \<noteq> key) (entries st)\<rparr>)\<rparr>)\<rparr>)"
    using d assms(3) by (simp add: delete_def transaction_def store_delete_def Let_def)
  have same: "filter (\<lambda>e. fst e \<noteq> key) (entries st) = entries st"
    if "key \<notin> fst ` set (entries st)"
    using that by (auto simp: filter_id_conv)
  show ?thesis
    using d(1) same by (auto simp: del store_of_def store_entries_def)
qed

text \<open>Deleting key 2 of the example store leaves the records 1 and 3; deleting key 9,
  which no record has, resolves and leaves all three.\<close>

theorem delete_removes_only_the_key_witness:
  "fst (delete (open_wrapper example_store) ''costs'' (JNumber (Finite 2)))
      = Inr ''Record deleted successfully''
   \<and> store_entries (snd (delete (open_wrapper example_store) ''costs'' (JNumber (Finite 2))))
        ''costs''
      = [with_id 1 rec_jan_2023, with_id 3 rec_jan_2022]
   \<and> fst (delete (open_wrapper example_store) ''costs'' (JNumber (Finite 9)))
      = Inr ''Record deleted successfully''
   \<and> store_entries (snd (delete (open_wrapper example_store) ''costs'' (JNumber (Finite 9))))
        ''costs''
      = entries example_store"
  using delete_removes_only_the_key [OF open_wrapper_store open_wrapper_serving,
      of "JNumber (Finite 2)" example_store]
    delete_removes_only_the_key [OF open_wrapper_store open_wrapper_serving,
      of "JNumber (Finite 9)" example_store]
  by (simp add: store_entries_def example_store_def with_id_def)

section \<open>What validation lets through, and what happens to the caller's object\<close>

text \<open>
  Claim C1, at the input where the code departs from it. The January record with the sum
  NaN has a sum that is not a positive number, so the claim has \<^verbatim>\<open>addOrUpdate\<close> reject it
  with the message that the sum ``must be a positive number'', open no transaction and
  leave the store alone. The checks let it pass (\<^verbatim>\<open>typeof NaN\<close> is \<^verbatim>\<open>'number'\<close> and
  \<^verbatim>\<open>NaN <= 0\<close> is false): on an empty store the call resolves, a transaction is opened, the
  record is put, and the store holds it as its first record.
\<close>

theorem addOrUpdate_accepts_nan_sum:
  "js_get (rec_jan_2023(''sum'' \<mapsto> JNumber NaN)) ''sum'' = JNumber NaN
   \<and> fst (addOrUpdate (open_wrapper empty_store) ''costs''
            (rec_jan_2023(''sum'' \<mapsto> JNumber NaN)))
       = Inr ''Data added/updated successfully''
   \<and> calls (fst (snd (addOrUpdate (open_wrapper empty_store) ''costs''
            (rec_jan_2023(''sum'' \<mapsto> JNumber NaN)))))
       = [Transaction ''costs'' ReadWrite,
          Put ''costs'' ((rec_jan_2023(''sum'' \<mapsto> JNumber NaN))(''id'' := None))]
   \<and> store_entries (fst (snd (addOrUpdate (open_wrapper empty_store) ''costs''
            (rec_jan_2023(''sum'' \<mapsto> JNumber NaN))))) ''costs''
       = [with_id 1 (rec_jan_2023(''sum'' \<mapsto> JNumber NaN))]"
proof -
  let ?data = "rec_jan_2023(''sum'' \<mapsto> JNumber NaN)"
  have s: "js_get ?data ''sum'' = JNumber NaN" by (simp add: js_get_def)
  have "js_truthy (js_get ?data ''date'')" "js_get ?data ''category'' = JString ''food''"
    "''food'' \<noteq> []"
    by (simp_all add: js_get_def rec_jan_2023_def)
  with s have v: "validate ?data = None" by (intro validate_nan)
  have c: "calls (open_wrapper st) = []" for st
    by (simp add: calls_def open_wrapper_def)
  from addOrUpdate_step [OF v open_wrapper_store open_wrapper_serving, of empty_store]
  show ?thesis
    by (simp add: s c store_entries_def empty_store_def with_id_def)
qed

text \<open>In particular the promise is not rejected with a validation error, whatever the
  message.\<close>

theorem addOrUpdate_accepts_nan_sum_witness:
  "\<forall>msg. fst (addOrUpdate (open_wrapper empty_store) ''costs''
              (rec_jan_2023(''sum'' \<mapsto> JNumber NaN)))
           \<noteq> Inl (ValidationError msg)"
  using addOrUpdate_accepts_nan_sum by simp

text \<open>
  Claim C9. A record with a date the wrapper accepts as present, a non-empty string as
  category and the sum NaN passes the three checks. On a serving wrapper that has the
  store, \<^verbatim>\<open>addOrUpdate\<close> resolves, the record is put, and the store files it, with the sum NaN,
  under the generator's number.
\<close>

theorem nan_sum_reaches_storage:
  assumes "js_truthy (js_get data ''date'')" and "js_get data ''sum'' = JNumber NaN"
    and "js_get data ''category'' = JString c" and "c \<noteq> []"
    and "store_of w name = Some st" and "serving w"
  shows "validate data = None
     \<and> fst (addOrUpdate w name data) = Inr ''Data added/updated successfully''
     \<and> calls (fst (snd (addOrUpdate w name data)))
         = calls w @ [Transaction name ReadWrite, Put name (data(''id'' := None))]
     \<and> store_entries (fst (snd (addOrUpdate w name data))) name
         = insert_entry (JNumber (Finite (of_nat (keygen st))))
             (data(''id'' \<mapsto> JNumber (Finite (of_nat (keygen st))))) (entries st)
     \<and> js_get (data(''id'' \<mapsto> JNumber (Finite (of_nat (keygen st))))) ''sum'' = JNumber NaN"
proof -
  have v: "validate data = None" using assms(1-4) by (rule validate_nan)
  show ?thesis
    using assms(2) addOrUpdate_step [OF v assms(5,6)]
    by (simp add: v store_entries_def js_get_def)
qed

text \<open>The January record with the sum NaN becomes the fourth record of the example
  store.\<close>

theorem nan_sum_reaches_storage_witness:
  "fst (addOrUpdate (open_wrapper example_store) ''costs''
          (rec_jan_2023(''sum'' \<mapsto> JNumber NaN)))
     = Inr ''Data added/updated successfully''
   \<and> store_entries
       (fst (snd (addOrUpdate (open_wrapper example_store) ''costs''
          (rec_jan_2023(''sum'' \<mapsto> JNumber NaN))))) ''costs''
     = entries example_store @ [with_id 4 (rec_jan_2023(''sum'' \<mapsto> JNumber NaN))]"
proof -
  let ?data = "rec_jan_2023(''sum'' \<mapsto> JNumber NaN)"
  have kg: "keygen example_store = 4" by (simp add: example_store_def)
  have ins: "insert_entry (JNumber (Finite 4)) v (entries example_store)
      = entries example_store @ [(JNumber (Finite 4), v)]" for v
    by (simp add: example_store_def with_id_def)
  have "js_truthy (js_get ?data ''date'')" "js_get ?data ''sum'' = JNumber NaN"
    "js_get ?data ''category'' = JString ''food''" "''food'' \<noteq> []"
    by (simp_all add: js_get_def rec_jan_2023_def)
  from nan_sum_reaches_storage [OF this open_wrapper_store open_wrapper_serving]
  show ?thesis
    by (simp add: kg ins with_id_def)
qed

text \<open>
  Claim C10, as the code has it. \<^verbatim>\<open>addOrUpdate\<close> deletes the \<^verbatim>\<open>id\<close> from the caller's own
  object exactly when the record passes the three checks and the wrapper's database is
  open and has the store: then the caller's object afterwards is the object without its
  \<^verbatim>\<open>id\<close>, whether or not the host then serves the put. In every other case (a record that
  fails a check, a database that is not open, a store it does not have) the caller's
  object is left as it was, \<^verbatim>\<open>id\<close> included.
\<close>

theorem addOrUpdate_caller_object:
  "(validate data = None \<and> store_of w name \<noteq> None \<longrightarrow>
       snd (snd (addOrUpdate w name data)) = data(''id'' := None)
       \<and> ''id'' \<notin> dom (snd (snd (addOrUpdate w name data))))
   \<and> (validate data \<noteq> None \<or> store_of w name = None \<longrightarrow>
       snd (snd (addOrUpdate w name data)) = data)"
proof (cases "validate data")
  case (Some msg)
  then show ?thesis by (simp add: addOrUpdate_refused)
next
  case None
  show ?thesis
  proof (cases "db w")
    case nodb: None
    then show ?thesis using None by (simp add: addOrUpdate_no_db store_of_def)
  next
    case (Some d)
    show ?thesis
    proof (cases "stores d name")
      case nostore: None
      then show ?thesis using None Some by (simp add: addOrUpdate_no_store store_of_def)
    next
      case (Some st)
      then show ?thesis
        using None \<open>db w = Some d\<close> addOrUpdate_accepted [OF None \<open>db w = Some d\<close> Some]
        by (simp add: store_of_def split: option.splits)
    qed
  qed
qed

text \<open>The January record with an \<^verbatim>\<open>id\<close> loses it; the same record with the sum 0 is
  rejected and keeps it.\<close>

theorem addOrUpdate_caller_object_witness:
  "snd (snd (addOrUpdate (open_wrapper example_store) ''costs''
       (rec_jan_2023(''id'' \<mapsto> JNumber (Finite 7)))))
     = (rec_jan_2023(''id'' \<mapsto> JNumber (Finite 7)))(''id'' := None)
   \<and> snd (snd (addOrUpdate (open_wrapper example_store) ''costs''
       (rec_jan_2023(''id'' \<mapsto> JNumber (Finite 7), ''sum'' \<mapsto> JNumber (Finite 0)))))
     = rec_jan_2023(''id'' \<mapsto> JNumber (Finite 7), ''sum'' \<mapsto> JNumber (Finite 0))"
proof -
  have v1: "validate (rec_jan_2023(''id'' \<mapsto> JNumber (Finite 7))) = None"
    by (simp add: validate_def js_get_def rec_jan_2023_def)
  have v2: "validate (rec_jan_2023(''id'' \<mapsto> JNumber (Finite 7), ''sum'' \<mapsto> JNumber (Finite 0)))
      \<noteq> None"
    by (simp add: validate_def js_get_def rec_jan_2023_def)
  have s: "store_of (open_wrapper example_store) ''costs'' \<noteq> None"
    by (simp add: open_wrapper_store)
  show ?thesis
    using addOrUpdate_caller_object [of "rec_jan_2023(''id'' \<mapsto> JNumber (Finite 7))"
        "open_wrapper example_store" "''costs''"]
      addOrUpdate_caller_object
        [of "rec_jan_2023(''id'' \<mapsto> JNumber (Finite 7), ''sum'' \<mapsto> JNumber (Finite 0))"
        "open_wrapper example_store" "''costs''"]
      v1 v2 s
    by blast
qed

text \<open>The claim as it is worded fails on a record that validation rejects: the object
  has an \<^verbatim>\<open>id\<close> before the call and has it after the call.\<close>

theorem addOrUpdate_keeps_id_of_rejected_record:
  "''id'' \<in> dom (rec_jan_2023(''id'' \<mapsto> JNumber (Finite 7), ''sum'' \<mapsto> JNumber (Finite 0)))
   \<and> ''id'' \<in> dom (snd (snd (addOrUpdate (open_wrapper example_store) ''costs''
         (rec_jan_2023(''id'' \<mapsto> JNumber (Finite 7), ''sum'' \<mapsto> JNumber (Finite 0))))))"
  by (simp add: addOrUpdate_def js_get_def rec_jan_2023_def)

section \<open>Properties of the reports\<close>

lemma year_test:
  "num_strict_eq (getFullYear (new_Date h (js_get r ''date''))) year = calendar_year_is h r year"
  by (auto simp: calendar_year_is_def num_strict_eq_def split: jsdate.splits jsval.splits)

lemma month_test:
  "num_strict_eq (num_add (getMonth (new_Date h (js_get r ''date''))) (Finite 1)) month
     = calendar_month_is h r month"
  by (auto simp: calendar_month_is_def num_strict_eq_def split: jsdate.splits jsval.splits)

lemma yearlyRecords_eq:
  "yearlyRecords h records year = filter (\<lambda>r. calendar_year_is h r year) records"
  by (simp add: yearlyRecords_def year_test)

lemma monthlyRecords_eq:
  "monthlyRecords h records month year
     = filter (\<lambda>r. calendar_month_is h r month \<and> calendar_year_is h r year) records"
  by (simp add: monthlyRecords_def year_test month_test)

lemma category_items_simps:
  "category_items h c [] = []"
  "category_items h c (r # rs) =
     (if to_string h (js_get r ''category'') = c then r # category_items h c rs
      else category_items h c rs)"
  by (simp_all add: category_items_def)

lemma sum_from_simps:
  "sum_from h start [] = start"
  "sum_from h start (r # rs) = sum_from h (js_plus h start (js_get r ''sum'')) rs"
  by (simp_all add: sum_from_def)

text \<open>When the loop ends without an exception, the report it has built from a report
  \<open>rep\<close> holds, under every name, what \<open>rep\<close> held there followed by the records of
  that category, and their sums added to the total.\<close>

lemma group_records_spec:
  "group_records h rep rs = Inr rep' \<Longrightarrow>
   rep' c =
     (case rep c of
        None \<Rightarrow>
          if category_items h c rs = [] then None
          else Some \<lparr>totalSum = sum_from h (JNumber (Finite 0)) (category_items h c rs),
                     items = category_items h c rs\<rparr>
      | Some e \<Rightarrow>
          Some \<lparr>totalSum = sum_from h (totalSum e) (category_items h c rs),
                items = items e @ category_items h c rs\<rparr>)"
proof (induction rs arbitrary: rep)
  case Nil
  then show ?case by (simp add: category_items_simps sum_from_simps split: option.splits)
next
  case (Cons r rs)
  from Cons.prems obtain rep1 where step: "add_to_report h rep r = Inr rep1"
    and rest: "group_records h rep1 rs = Inr rep'"
    by (auto split: sum.splits)
  note IH = Cons.IH [OF rest]
  show ?case
  proof (cases "to_string h (js_get r ''category'') = c")
    case False
    with step have "rep1 c = rep c"
      by (auto simp: add_to_report_def Let_def split: option.splits if_splits)
    with IH False show ?thesis by (simp add: category_items_simps split: option.splits)
  next
    case True
    show ?thesis
    proof (cases "rep c")
      case None
      with step True have "rep1 c = Some \<lparr>totalSum = js_plus h (JNumber (Finite 0)) (js_get r ''sum''),
          items = [r]\<rparr>"
        by (auto simp: add_to_report_def Let_def split: if_splits)
      with IH True None show ?thesis
        by (simp add: category_items_simps sum_from_simps split: option.splits)
    next
      case (Some e)
      with step True have "rep1 c = Some \<lparr>totalSum = js_plus h (totalSum e) (js_get r ''sum''),
          items = items e @ [r]\<rparr>"
        by (auto simp: add_to_report_def Let_def split: if_splits)
      with IH True Some show ?thesis
        by (simp add: category_items_simps sum_from_simps split: option.splits)
    qed
  qed
qed

lemma group_records_empty_report:
  "group_records h Map.empty rs = Inr rep \<Longrightarrow>
   rep c = (if category_items h c rs = [] then None
            else Some \<lparr>totalSum = sum_from h (JNumber (Finite 0)) (category_items h c rs),
                       items = category_items h c rs\<rparr>)"
  by (drule group_records_spec [where c = c]) simp

text \<open>The loop ends without an exception when no category is a name that \<^verbatim>\<open>{}\<close>
  inherits.\<close>

lemma group_records_safe:
  "\<forall>r \<in> set rs. to_string h (js_get r ''category'') \<notin> set object_prototype_keys \<Longrightarrow>
   \<exists>rep'. group_records h rep rs = Inr rep'"
proof (induction rs arbitrary: rep)
  case Nil
  then show ?case by simp
next
  case (Cons r rs)
  from Cons.prems have "\<exists>rep1. add_to_report h rep r = Inr rep1"
    by (cases "rep (to_string h (js_get r ''category''))") (simp_all add: add_to_report_def Let_def)
  then obtain rep1 where "add_to_report h rep r = Inr rep1" ..
  with Cons show ?case by simp
qed

lemma food_not_inherited: "''food'' \<notin> set object_prototype_keys"
  by (simp add: object_prototype_keys_def)

lemma getYearlyReport_served:
  assumes "getAll w name = (Inr records, w')"
  shows "getYearlyReport h w name year =
     (if records = []
      then (Inr (Message (''No records found for '' @ to_string h year @ ''.'')), w')
      else (case group_records h Map.empty (yearlyRecords h records year) of
              Inl x \<Rightarrow> (Inl (Exception x), w')
            | Inr report \<Rightarrow> (Inr (Report report), w')))"
  using assms by (simp add: getYearlyReport_def)

lemma getMonthlyReport_served:
  assumes "getAll w name = (Inr records, w')"
  shows "getMonthlyReport h w name month year =
     (if records = [] \<or> monthlyRecords h records month year = []
      then (Inr (Message (''No records found for '' @ to_string h month @ ''/''
                            @ to_string h year @ ''.'')), w')
      else (case group_records h Map.empty (monthlyRecords h records month year) of
              Inl x \<Rightarrow> (Inl (Exception x), w')
            | Inr report \<Rightarrow> (Inr (Report report), w')))"
  using assms by (simp add: getMonthlyReport_def)

text \<open>
  Claim C2. When \<^verbatim>\<open>getAll\<close> yields the records of the store: \<^verbatim>\<open>getYearlyReport\<close> resolves
  to the message ``No records found for \<open>year\<close>.'' when the store holds no record; when
  the store holds a record it never resolves to a message; and when it holds records but
  none whose date has the requested calendar year, it resolves to the report object
  without any category.
\<close>

theorem getYearlyReport_message_only_for_empty_store:
  assumes "getAll w name = (Inr records, w')"
  shows "(records = [] \<longrightarrow>
            getYearlyReport h w name year
              = (Inr (Message (''No records found for '' @ to_string h year @ ''.'')), w'))
       \<and> (records \<noteq> [] \<longrightarrow> (\<forall>s. fst (getYearlyReport h w name year) \<noteq> Inr (Message s)))
       \<and> (records \<noteq> [] \<and> (\<forall>r \<in> set records. \<not> calendar_year_is h r year) \<longrightarrow>
            getYearlyReport h w name year = (Inr (Report Map.empty), w'))"
proof -
  have "yearlyRecords h records year = []" if "\<forall>r \<in> set records. \<not> calendar_year_is h r year"
    using that by (simp add: yearlyRecords_eq filter_empty_conv)
  then show ?thesis
    by (auto simp: getYearlyReport_served [OF assms] split: sum.splits)
qed

text \<open>The empty store gives the message; the example store, asked for 2021, gives the
  empty report.\<close>

theorem getYearlyReport_message_only_for_empty_store_witness:
  "(\<forall>h. fst (getYearlyReport h (open_wrapper empty_store) ''costs'' (JNumber (Finite 2023)))
         = Inr (Message (''No records found for '' @ number_to_string h (Finite 2023) @ ''.'')))
   \<and> (\<forall>h. fst (getYearlyReport h (open_wrapper example_store) ''costs'' (JNumber (Finite 2021)))
         = Inr (Report Map.empty))"
proof (intro conjI allI)
  fix h
  have "store_getAll empty_store = []" by (simp add: store_getAll_def empty_store_def)
  with getYearlyReport_message_only_for_empty_store
    [OF getAll_example, of empty_store h "JNumber (Finite 2023)"]
  show "fst (getYearlyReport h (open_wrapper empty_store) ''costs'' (JNumber (Finite 2023)))
         = Inr (Message (''No records found for '' @ number_to_string h (Finite 2023) @ ''.''))"
    by simp
next
  fix h
  have ne: "store_getAll example_store \<noteq> []" by (simp add: example_records)
  have none: "\<forall>r \<in> set (store_getAll example_store). \<not> calendar_year_is h r (JNumber (Finite 2021))"
    by (simp add: example_records calendar_year_is_def with_id_def js_get_def
        rec_jan_2023_def rec_jun_2023_def rec_jan_2022_def)
  with ne getYearlyReport_message_only_for_empty_store
    [OF getAll_example, of example_store h "JNumber (Finite 2021)"]
  show "fst (getYearlyReport h (open_wrapper example_store) ''costs'' (JNumber (Finite 2021)))
         = Inr (Report Map.empty)"
    by simp
qed

text \<open>The two cases in which \<^verbatim>\<open>getMonthlyReport\<close> resolves to its message, and the case in
  which it resolves to a report.\<close>

lemma getMonthlyReport_messages:
  assumes "getAll w name = (Inr records, w')"
    and "records = []
         \<or> (\<forall>r \<in> set records. \<not> (calendar_month_is h r month \<and> calendar_year_is h r year))"
  shows "getMonthlyReport h w name month year
           = (Inr (Message (''No records found for '' @ to_string h month @ ''/''
                              @ to_string h year @ ''.'')), w')"
  using assms(2)
  by (auto simp: getMonthlyReport_served [OF assms(1)] monthlyRecords_eq filter_empty_conv)

lemma getMonthlyReport_report:
  assumes "getAll w name = (Inr records, w')"
    and "\<exists>r \<in> set records. calendar_month_is h r month \<and> calendar_year_is h r year"
    and "\<forall>r \<in> set records. to_string h (js_get r ''category'') \<notin> set object_prototype_keys"
  shows "\<exists>rep. getMonthlyReport h w name month year = (Inr (Report rep), w')"
proof -
  from assms(2) have ne: "records \<noteq> []" "monthlyRecords h records month year \<noteq> []"
    by (auto simp: monthlyRecords_eq filter_empty_conv)
  from assms(3) have
    "\<forall>r \<in> set (monthlyRecords h records month year).
        to_string h (js_get r ''category'') \<notin> set object_prototype_keys"
    by (simp add: monthlyRecords_eq)
  from group_records_safe [OF this, of Map.empty] obtain rep where
    "group_records h Map.empty (monthlyRecords h records month year) = Inr rep" ..
  with ne show ?thesis by (simp add: getMonthlyReport_served [OF assms(1)])
qed

text \<open>A record of January 2023 with the category ``constructor'' passes the three
  checks, and \<^verbatim>\<open>addOrUpdate\<close> on an empty store leaves the store that holds this record
  alone.\<close>

lemma constructor_store_built:
  "fst (addOrUpdate (open_wrapper empty_store) ''costs'' rec_constructor)
     = Inr ''Data added/updated successfully''
   \<and> store_of (fst (snd (addOrUpdate (open_wrapper empty_store) ''costs'' rec_constructor)))
        ''costs'' = Some constructor_store"
proof -
  have v: "validate rec_constructor = None"
    by (simp add: validate_def js_get_def rec_constructor_def rec_jan_2023_def)
  from addOrUpdate_step [OF v open_wrapper_store open_wrapper_serving, of empty_store]
  show ?thesis
    by (simp add: empty_store_def constructor_store_def with_id_def)
qed

text \<open>
  Claim C3, at the input where the code departs from it. The store holds one record, of
  January 2023, with the category ``constructor''. The store is not empty and the record
  matches month 1 of 2023, so the claim has \<^verbatim>\<open>getMonthlyReport\<close> return the report object;
  the promise is rejected with a TypeError instead.
\<close>

theorem getMonthlyReport_rejects_inherited_name:
  "fst (getMonthlyReport h (open_wrapper constructor_store) ''costs''
          (JNumber (Finite 1)) (JNumber (Finite 2023)))
     = Inl (Exception TypeError)"
proof -
  let ?r = "snd (with_id 1 rec_constructor)"
  have get: "getAll (open_wrapper constructor_store) ''costs''
      = (Inr [?r], snd (getAll (open_wrapper constructor_store) ''costs''))"
    using getAll_example [of constructor_store]
    by (simp add: store_getAll_def constructor_store_def)
  have sel: "monthlyRecords h [?r] (JNumber (Finite 1)) (JNumber (Finite 2023)) = [?r]"
    by (simp add: monthlyRecords_def num_strict_eq_def with_id_def js_get_def
        rec_constructor_def rec_jan_2023_def)
  have grp: "group_records h Map.empty [?r] = Inl TypeError"
    by (simp add: add_to_report_def object_prototype_keys_def with_id_def js_get_def
        rec_constructor_def Let_def)
  show ?thesis
    unfolding getMonthlyReport_served [OF get] sel grp by simp
qed

text \<open>The grouping loop of \<^verbatim>\<open>getYearlyReport\<close> is the same, and so is its result on
  this store.\<close>

lemma getYearlyReport_rejects_inherited_name:
  "fst (getYearlyReport h (open_wrapper constructor_store) ''costs'' (JNumber (Finite 2023)))
     = Inl (Exception TypeError)"
proof -
  let ?r = "snd (with_id 1 rec_constructor)"
  have get: "getAll (open_wrapper constructor_store) ''costs''
      = (Inr [?r], snd (getAll (open_wrapper constructor_store) ''costs''))"
    using getAll_example [of constructor_store]
    by (simp add: store_getAll_def constructor_store_def)
  have sel: "yearlyRecords h [?r] (JNumber (Finite 2023)) = [?r]"
    by (simp add: yearlyRecords_def num_strict_eq_def with_id_def js_get_def
        rec_constructor_def rec_jan_2023_def)
  have grp: "group_records h Map.empty [?r] = Inl TypeError"
    by (simp add: add_to_report_def object_prototype_keys_def with_id_def js_get_def
        rec_constructor_def Let_def)
  show ?thesis
    unfolding getYearlyReport_served [OF get] sel grp by simp
qed

text \<open>
  Claim C5. When \<^verbatim>\<open>getAll\<close> yields exactly three records, dated in January 2023, June
  2023 and January 2022, with the sums 10, 20 and 5 and all of the category ``food'',
  \<^verbatim>\<open>getYearlyReport\<close> for 2023 resolves to the report with the single key ``food'', whose
  total is 30 and whose items are the first two records, in that order.
\<close>

theorem getYearlyReport_example:
  assumes "getAll w name = (Inr [r1, r2, r3], w')"
    and "new_Date h (js_get r1 ''date'') = ValidDate 2023 0 d1 t1"
    and "js_get r1 ''sum'' = JNumber (Finite 10)"
    and "js_get r1 ''category'' = JString ''food''"
    and "new_Date h (js_get r2 ''date'') = ValidDate 2023 5 d2 t2"
    and "js_get r2 ''sum'' = JNumber (Finite 20)"
    and "js_get r2 ''category'' = JString ''food''"
    and "new_Date h (js_get r3 ''date'') = ValidDate 2022 0 d3 t3"
    and "js_get r3 ''sum'' = JNumber (Finite 5)"
    and "js_get r3 ''category'' = JString ''food''"
  shows "getYearlyReport h w name (JNumber (Finite 2023))
     = (Inr (Report [''food'' \<mapsto> \<lparr>totalSum = JNumber (Finite 30), items = [r1, r2]\<rparr>]), w')"
proof -
  have sel: "yearlyRecords h [r1, r2, r3] (JNumber (Finite 2023)) = [r1, r2]"
    using assms(2,5,8) by (simp add: yearlyRecords_def num_strict_eq_def)
  have grp: "group_records h Map.empty [r1, r2]
      = Inr [''food'' \<mapsto> \<lparr>totalSum = JNumber (Finite 30), items = [r1, r2]\<rparr>]"
    using assms(3,4,6,7) by (simp add: add_to_report_def food_not_inherited js_plus_def Let_def)
  show ?thesis
    unfolding getYearlyReport_served [OF assms(1)] sel grp by simp
qed

text \<open>The example store, whose records are dated 5 January 2023, 1 June 2023 and 1
  January 2022.\<close>

theorem getYearlyReport_example_witness:
  "\<forall>h. fst (getYearlyReport h (open_wrapper example_store) ''costs'' (JNumber (Finite 2023)))
     = Inr (Report [''food'' \<mapsto>
         \<lparr>totalSum = JNumber (Finite 30),
          items = [snd (with_id 1 rec_jan_2023), snd (with_id 2 rec_jun_2023)]\<rparr>])"
proof
  fix h
  have g: "getAll (open_wrapper example_store) ''costs''
      = (Inr [snd (with_id 1 rec_jan_2023), snd (with_id 2 rec_jun_2023),
              snd (with_id 3 rec_jan_2022)],
         snd (getAll (open_wrapper example_store) ''costs''))"
    using getAll_example [of example_store] by (simp add: example_records)
  show "fst (getYearlyReport h (open_wrapper example_store) ''costs'' (JNumber (Finite 2023)))
     = Inr (Report [''food'' \<mapsto>
         \<lparr>totalSum = JNumber (Finite 30),
          items = [snd (with_id 1 rec_jan_2023), snd (with_id 2 rec_jun_2023)]\<rparr>])"
    by (subst getYearlyReport_example [OF g, where ?d1.0 = 5 and ?t1.0 = 0 and ?d2.0 = 1
          and ?t2.0 = 0 and ?d3.0 = 1 and ?t3.0 = 0])
      (simp_all add: with_id_def js_get_def rec_jan_2023_def rec_jun_2023_def rec_jan_2022_def)
qed

text \<open>
  Claim C6. When \<^verbatim>\<open>getAll\<close> yields the records of the store, the records that
  \<^verbatim>\<open>getMonthlyReport\<close> selects are exactly those whose date has the given calendar month,
  counted from 1 (the host's month index plus one), and the given calendar year, in the
  order of the store; when the method resolves to a report, the items under each category
  are the selected records of that category. On the example store, month 1 of 2023 gives
  the report with the single key ``food'', the total 10 and the January 2023 record as
  its only item.
\<close>

theorem getMonthlyReport_selection:
  assumes "getAll w name = (Inr records, w')"
  shows "monthlyRecords h records month year
           = filter (\<lambda>r. calendar_month_is h r month \<and> calendar_year_is h r year) records
     \<and> (\<forall>rep w''. getMonthlyReport h w name month year = (Inr (Report rep), w'') \<longrightarrow>
           (\<forall>c. report_items rep c
                  = filter (\<lambda>r. to_string h (js_get r ''category'') = c)
                      (filter (\<lambda>r. calendar_month_is h r month \<and> calendar_year_is h r year)
                         records)))
     \<and> fst (getMonthlyReport h (open_wrapper example_store) ''costs''
              (JNumber (Finite 1)) (JNumber (Finite 2023)))
         = Inr (Report [''food'' \<mapsto>
             \<lparr>totalSum = JNumber (Finite 10), items = [snd (with_id 1 rec_jan_2023)]\<rparr>])"
proof (intro conjI allI impI)
  show "monthlyRecords h records month year
           = filter (\<lambda>r. calendar_month_is h r month \<and> calendar_year_is h r year) records"
    by (rule monthlyRecords_eq)
next
  fix rep w'' c
  assume res: "getMonthlyReport h w name month year = (Inr (Report rep), w'')"
  then have "group_records h Map.empty (monthlyRecords h records month year) = Inr rep"
    by (auto simp: getMonthlyReport_served [OF assms] split: if_splits sum.splits)
  from group_records_empty_report [OF this, of c]
  show "report_items rep c
          = filter (\<lambda>r. to_string h (js_get r ''category'') = c)
              (filter (\<lambda>r. calendar_month_is h r month \<and> calendar_year_is h r year) records)"
    by (simp add: report_items_def monthlyRecords_eq category_items_def split: if_splits)
next
  let ?r1 = "snd (with_id 1 rec_jan_2023)"
  let ?r2 = "snd (with_id 2 rec_jun_2023)"
  let ?r3 = "snd (with_id 3 rec_jan_2022)"
  have g: "getAll (open_wrapper example_store) ''costs''
      = (Inr [?r1, ?r2, ?r3], snd (getAll (open_wrapper example_store) ''costs''))"
    using getAll_example [of example_store] by (simp add: example_records)
  have sel: "monthlyRecords h [?r1, ?r2, ?r3] (JNumber (Finite 1)) (JNumber (Finite 2023)) = [?r1]"
    by (simp add: monthlyRecords_def num_strict_eq_def with_id_def js_get_def
        rec_jan_2023_def rec_jun_2023_def rec_jan_2022_def)
  have grp: "group_records h Map.empty [?r1]
      = Inr [''food'' \<mapsto> \<lparr>totalSum = JNumber (Finite 10), items = [?r1]\<rparr>]"
    by (simp add: add_to_report_def food_not_inherited js_plus_def with_id_def js_get_def
        rec_jan_2023_def Let_def)
  show "fst (getMonthlyReport h (open_wrapper example_store) ''costs''
              (JNumber (Finite 1)) (JNumber (Finite 2023)))
         = Inr (Report [''food'' \<mapsto> \<lparr>totalSum = JNumber (Finite 10), items = [?r1]\<rparr>])"
    unfolding getMonthlyReport_served [OF g] sel grp by simp
qed

text \<open>On the example store the filter picks the January record for month 1 of 2023,
  the June record for month 6, and nothing for month 0: the months count from 1.\<close>

theorem getMonthlyReport_selection_witness:
  "\<forall>h. monthlyRecords h (store_getAll example_store) (JNumber (Finite 1)) (JNumber (Finite 2023))
         = [snd (with_id 1 rec_jan_2023)]
      \<and> monthlyRecords h (store_getAll example_store) (JNumber (Finite 6)) (JNumber (Finite 2023))
         = [snd (with_id 2 rec_jun_2023)]
      \<and> monthlyRecords h (store_getAll example_store) (JNumber (Finite 0)) (JNumber (Finite 2023))
         = []"
proof
  fix h
  note sel = getMonthlyReport_selection [OF getAll_example, where st1 = example_store and h = h,
      THEN conjunct1]
  show "monthlyRecords h (store_getAll example_store) (JNumber (Finite 1)) (JNumber (Finite 2023))
         = [snd (with_id 1 rec_jan_2023)]
      \<and> monthlyRecords h (store_getAll example_store) (JNumber (Finite 6)) (JNumber (Finite 2023))
         = [snd (with_id 2 rec_jun_2023)]
      \<and> monthlyRecords h (store_getAll example_store) (JNumber (Finite 0)) (JNumber (Finite 2023))
         = []"
    unfolding sel
    by (simp add: example_records calendar_year_is_def calendar_month_is_def with_id_def
        js_get_def rec_jan_2023_def rec_jun_2023_def rec_jan_2022_def)
qed

end
